theory Spec2Isabelle
  imports Complex_Main
begin

section \<open>JavaScript numbers\<close>

text \<open>
  A JavaScript number is an IEEE double: a finite value, one of the two infinities, or NaN.
  Finite values are embedded as reals (rounding of the arithmetic is not modelled);
  the three non-finite values are kept apart, since \<open>Math.round\<close>, \<open>Math.min\<close>,
  \<open>Math.max\<close> and \<open>isFinite\<close> treat them specially.
\<close>

datatype jsnum = Num real | PosInf | NegInf | NaN

text \<open>\<open>isFinite(v) && !isNaN(v)\<close>\<close>

fun js_isFinite :: "jsnum \<Rightarrow> bool" where
  "js_isFinite (Num r) = True"
| "js_isFinite v = False"

text \<open>
  \<open>Math.round\<close>: the closest integer, ties towards plus infinity, which on a finite value is
  \<open>floor (x + 1/2)\<close>; the non-finite values are returned as they are.
\<close>

fun js_round :: "jsnum \<Rightarrow> jsnum" where
  "js_round (Num r) = Num (of_int \<lfloor>r + 1 / 2\<rfloor>)"
| "js_round v = v"

text \<open>\<open>Math.min\<close> and \<open>Math.max\<close> of two arguments: NaN if either argument is NaN.\<close>

fun js_min :: "jsnum \<Rightarrow> jsnum \<Rightarrow> jsnum" where
  "js_min NaN b = NaN"
| "js_min a NaN = NaN"
| "js_min NegInf b = NegInf"
| "js_min a NegInf = NegInf"
| "js_min PosInf b = b"
| "js_min a PosInf = a"
| "js_min (Num a) (Num b) = Num (min a b)"

fun js_max :: "jsnum \<Rightarrow> jsnum \<Rightarrow> jsnum" where
  "js_max NaN b = NaN"
| "js_max a NaN = NaN"
| "js_max PosInf b = PosInf"
| "js_max a PosInf = PosInf"
| "js_max NegInf b = b"
| "js_max a NegInf = a"
| "js_max (Num a) (Num b) = Num (max a b)"


text \<open>The value is an integer between \<open>lo\<close> and \<open>hi\<close> (so neither NaN nor infinite).\<close>

fun int_in_range :: "int \<Rightarrow> int \<Rightarrow> jsnum \<Rightarrow> bool" where
  "int_in_range lo hi (Num r) = (of_int \<lfloor>r\<rfloor> = r \<and> of_int lo \<le> r \<and> r \<le> of_int hi)"
| "int_in_range lo hi v = False"

section \<open>Score normalisation\<close>

text \<open>
  \<^verbatim>\<open>normalizeScore(val, center = 50) { return Math.max(5, Math.min(95, Math.round(val))); }\<close>
  The parameter \<open>center\<close> is not used by the body.
\<close>

definition normalizeScore :: "jsnum \<Rightarrow> jsnum" where
  "normalizeScore val = js_max (Num 5) (js_min (Num 95) (js_round val))"

text \<open>\<^verbatim>\<open>const safeNum = (val, def = 0) => (isFinite(val) && !isNaN(val)) ? val : def;\<close>\<close>

definition safeNum :: "jsnum \<Rightarrow> jsnum" where
  "safeNum val = (if js_isFinite val then val else Num 0)"

section \<open>JavaScript truthiness and null\<close>

text \<open>
  A timestamp field holds a number or \<open>null\<close>. \<open>null\<close> and \<open>0\<close> are falsy
  (\<open>!v\<close>, \<open>v || w\<close>, \<open>v && w\<close>), and \<open>null\<close> converts to \<open>0\<close> in arithmetic.
\<close>

fun truthy :: "real option \<Rightarrow> bool" where
  "truthy None = False"
| "truthy (Some r) = (r \<noteq> 0)"

fun to_num :: "real option \<Rightarrow> real" where
  "to_num None = 0"
| "to_num (Some r) = r"

text \<open>\<open>a || b\<close>\<close>

definition js_or :: "real option \<Rightarrow> real option \<Rightarrow> real option" where
  "js_or a b = (if truthy a then a else b)"

section \<open>Data model\<close>

datatype Personality = Impulsive | Analytical | Perfectionist | Observer | Restless

text \<open>
  \<open>this.state.metrics\<close>. The counters start at 0 and only ever change by \<open>++\<close>, so they are
  naturals; distances, speeds and times are numbers. \<open>lastActivityTime\<close> always holds a number
  (0 in the constructor, \<open>performance.now()\<close> after \<open>resetMetrics\<close>); \<open>firstActivityTime\<close> is
  \<open>null\<close> until the first pointer sample.
\<close>

record Metrics =
  mouseDistance :: real
  velocitySum :: real
  velocityCount :: nat
  maxVelocity :: real
  jitterCount :: nat
  scrollCount :: nat
  clickCount :: nat
  keystrokes :: nat
  backspaces :: nat
  idleTime :: real
  lastActivityTime :: real
  directionChanges :: nat
  maxScrollVelocity :: real
  firstActivityTime :: "real option"

text \<open>\<open>this.state.scores\<close> once computed.\<close>

record Scores =
  focus :: jsnum
  hesitation :: jsnum
  controlBias :: jsnum
  energy :: jsnum

text \<open>\<open>this.lastMouse = { x, y, time, vx, vy }\<close>\<close>

record LastMouse =
  lm_x :: real
  lm_y :: real
  lm_time :: real
  lm_vx :: real
  lm_vy :: real

text \<open>
  The instance of class \<open>AdaptiveMirror\<close>: the fields of \<open>this.state\<close> and of \<open>this\<close> that
  the session logic reads or writes. \<open>scores\<close> is \<open>None\<close> for the empty object \<open>{}\<close>.
  \<open>countdownTimer\<close> and \<open>idleTimer\<close> say whether the interval \<open>this.timers.countdown\<close>,
  \<open>this.timers.idle\<close> is running. The DOM, audio, canvas and persistence are left out.
\<close>

record Mirror =
  isObserving :: bool
  startTime :: "real option"
  duration :: real
  timeRemaining :: int
  pausedTime :: real
  hiddenTime :: real
  metrics :: Metrics
  personality :: "Personality option"
  scores :: "Scores option"
  themeApplied :: bool
  hidden :: bool
  lastMouse :: LastMouse
  idleStart :: "real option"
  isComposing :: bool
  isDestroyed :: bool
  countdownTimer :: bool
  idleTimer :: bool

text \<open>The metrics object literal of the constructor and of \<open>resetMetrics\<close>, with its clock stamp.\<close>

definition freshMetrics :: "real \<Rightarrow> Metrics" where
  "freshMetrics stamp =
     \<lparr> mouseDistance = 0, velocitySum = 0, velocityCount = 0, maxVelocity = 0,
       jitterCount = 0, scrollCount = 0, clickCount = 0, keystrokes = 0, backspaces = 0,
       idleTime = 0, lastActivityTime = stamp, directionChanges = 0,
       maxScrollVelocity = 0, firstActivityTime = None \<rparr>"

definition freshMouse :: LastMouse where
  "freshMouse = \<lparr> lm_x = 0, lm_y = 0, lm_time = 0, lm_vx = 0, lm_vy = 0 \<rparr>"

text \<open>The state the constructor builds.\<close>

definition initialMirror :: Mirror where
  "initialMirror =
     \<lparr> isObserving = False, startTime = None, duration = 30000, timeRemaining = 30,
       pausedTime = 0, hiddenTime = 0, metrics = freshMetrics 0, personality = None,
       scores = None, themeApplied = False, hidden = False, lastMouse = freshMouse,
       idleStart = None, isComposing = False, isDestroyed = False,
       countdownTimer = False, idleTimer = False \<rparr>"

section \<open>Classifier: calculateResults\<close>

text \<open>
  \<^verbatim>\<open>const actualDuration = ((m.lastActivityTime || performance.now())
       - (m.firstActivityTime || this.state.startTime)) / 1000;\<close>
\<close>

definition actualDuration :: "real \<Rightarrow> Mirror \<Rightarrow> real" where
  "actualDuration now s =
     (to_num (js_or (Some (lastActivityTime (metrics s))) (Some now))
      - to_num (js_or (firstActivityTime (metrics s)) (startTime s))) / 1000"

text \<open>\<^verbatim>\<open>const durationSec = Math.max(1, Math.min(30, actualDuration || 30));\<close>\<close>

definition durationSec :: "real \<Rightarrow> Mirror \<Rightarrow> real" where
  "durationSec now s =
     max 1 (min 30 (if actualDuration now s \<noteq> 0 then actualDuration now s else 30))"

definition avgVelocity :: "Metrics \<Rightarrow> real" where
  "avgVelocity m =
     (if velocityCount m > 0 then velocitySum m / real (velocityCount m) else 0)"

definition clickRate :: "real \<Rightarrow> Mirror \<Rightarrow> real" where
  "clickRate now s = real (clickCount (metrics s)) / durationSec now s"

definition scrollRate :: "real \<Rightarrow> Mirror \<Rightarrow> real" where
  "scrollRate now s = real (scrollCount (metrics s)) / durationSec now s"

definition activityDensity :: "real \<Rightarrow> Mirror \<Rightarrow> real" where
  "activityDensity now s =
     real (clickCount (metrics s) + scrollCount (metrics s) + keystrokes (metrics s))
       / durationSec now s"

definition deletionRate :: "Metrics \<Rightarrow> real" where
  "deletionRate m =
     (if keystrokes m > 0 then real (backspaces m) / real (keystrokes m) else 0)"

definition avgIdleGap :: "Metrics \<Rightarrow> real" where
  "avgIdleGap m = (if clickCount m > 0 then idleTime m / real (clickCount m) else 0)"

text \<open>
  The object \<open>scores\<close> after the rule table has run, as \<open>Object.entries\<close> lists it: in the
  order in which the keys were written.
\<close>

definition archetypeScores :: "real \<Rightarrow> Mirror \<Rightarrow> (Personality \<times> int) list" where
  "archetypeScores now s =
     (let m = metrics s in
      [ (Impulsive,
           (if avgVelocity m > 12 / 10 \<or> clickRate now s > 4 / 10 then 20 else 0)
           + (if maxVelocity m > 3 then 15 else 0)
           + (if jitterCount m > 40 then 15 else 0)),
        (Analytical,
           (if avgVelocity m < 5 / 10 \<and> avgIdleGap m > 2000 then 25 else 0)
           + (if idleTime m > 10000 then 15 else 0)
           + (if keystrokes m > 50 \<and> deletionRate m < 1 / 10 then 10 else 0)),
        (Perfectionist,
           (if deletionRate m > 15 / 100 then 25 else 0)
           + (if backspaces m > 3 then 15 else 0)
           + (if avgVelocity m < 8 / 10 \<and> jitterCount m < 20 then 10 else 0)),
        (Observer,
           (if mouseDistance m < 600 \<and> clickCount m < 3 then 30 else 0)
           + (if keystrokes m < 5 \<and> scrollCount m < 5 then 20 else 0)),
        (Restless,
           (if activityDensity now s > 8 / 10 then 20 else 0)
           + (if directionChanges m > 30 then 15 else 0)
           + (if scrollRate now s > 5 / 10 then 15 else 0)) ])"

text \<open>
  \<^verbatim>\<open>const entries = Object.entries(scores).sort((a, b) => b[1] - a[1]);\<close>
  \<open>Array.prototype.sort\<close> is stable: descending by score, equal scores in their former
  order. \<open>sort_key\<close> is insertion sort, stable too; the key is the negated score.
\<close>

definition entries :: "real \<Rightarrow> Mirror \<Rightarrow> (Personality \<times> int) list" where
  "entries now s = sort_key (\<lambda>e. - snd e) (archetypeScores now s)"

text \<open>The branch \<open>else\<close> of \<open>if (entries[0][1] > 0)\<close>: no rule fired.\<close>

definition zeroScoreFallback :: "Metrics \<Rightarrow> Personality" where
  "zeroScoreFallback m =
     (if mouseDistance m > 2000 then Restless
      else if backspaces m > 0 then Perfectionist
      else if clickCount m > 5 then Impulsive
      else Observer)"

text \<open>
  The value of \<open>dominant\<close> when \<open>this.state.personality = dominant\<close> runs, given the sorted
  entries \<open>e0, e1, ...\<close>.
\<close>

definition dominantOf ::
  "Metrics \<Rightarrow> (Personality \<times> int) \<Rightarrow> (Personality \<times> int) list \<Rightarrow> Personality" where
  "dominantOf m e0 rest =
     (if snd e0 > 0 then
        (case rest of
           [] \<Rightarrow> fst e0
         | e1 # _ \<Rightarrow>
             if snd e0 = snd e1 then
               (if fst e1 = Impulsive \<and> avgVelocity m > 1 then Impulsive
                else if fst e1 = Analytical \<and> avgIdleGap m > 2000 then Analytical
                else fst e0)
             else fst e0)
      else zeroScoreFallback m)"

definition controlScore :: "real \<Rightarrow> Mirror \<Rightarrow> real" where
  "controlScore now s =
     (let clickScrollSum = clickRate now s + scrollRate now s in
      if clickScrollSum > 0 then (clickRate now s / clickScrollSum) * 100 else 50)"

text \<open>The object assigned to \<open>this.state.scores\<close>, after the clamp of \<open>controlBias\<close>.\<close>

definition subScores :: "real \<Rightarrow> Mirror \<Rightarrow> Scores" where
  "subScores now s =
     (let m = metrics s;
          focusScore = safeNum (Num (avgVelocity m * 20 + activityDensity now s * 10));
          hesitationScore = safeNum (Num (deletionRate m * 50 + avgIdleGap m / 100));
          energyScore = safeNum (js_min (Num 100) (Num (activityDensity now s * 10)))
      in \<lparr> focus = normalizeScore focusScore,
           hesitation = normalizeScore hesitationScore,
           controlBias = js_max (Num 0) (js_min (Num 100) (js_round (Num (controlScore now s)))),
           energy = normalizeScore energyScore \<rparr>)"

text \<open>
  A call either returns or throws; both carry the state as the call left it.
\<close>

datatype 'a attempt = Returned 'a | Threw 'a

text \<open>
  \<open>calculateResults()\<close>. Reading \<open>entries[0][1]\<close> of an empty array would throw a TypeError.
\<close>

definition calculateResults :: "real \<Rightarrow> Mirror \<Rightarrow> Mirror attempt" where
  "calculateResults now s =
     (case entries now s of
        [] \<Rightarrow> Threw s
      | e0 # rest \<Rightarrow>
          Returned (s\<lparr> personality := Some (dominantOf (metrics s) e0 rest),
                      scores := Some (subScores now s) \<rparr>))"

section \<open>Session controller and clock\<close>

text \<open>
  The clock is a parameter: every handler takes the value \<open>now\<close> of \<open>performance.now()\<close>
  at the event, and the calls it makes in the course of that event read the same value.
  The arithmetic of this section is exact; the clock with binary64 rounding follows it.
\<close>

definition stopObservation :: "Mirror \<Rightarrow> Mirror" where
  "stopObservation s = s\<lparr> isObserving := False, countdownTimer := False, idleTimer := False \<rparr>"

text \<open>The object of the \<open>catch\<close> block of \<open>completeObservation\<close>.\<close>

definition fallbackScores :: Scores where
  "fallbackScores = \<lparr> focus = Num 50, hesitation = Num 50, controlBias = Num 50, energy = Num 50 \<rparr>"

text \<open>
  \<open>completeObservation()\<close>, with the classifier it calls inside \<open>try\<close> as a parameter:
  \<^verbatim>\<open>this.stopObservation(); ...
  try { this.calculateResults(); }
  catch (error) { this.state.personality = 'Observer';
                  this.state.scores = { focus: 50, hesitation: 50, controlBias: 50, energy: 50 }; }\<close>
  The timeout that later displays the result is not modelled.
\<close>

definition completeObservationWith ::
  "(real \<Rightarrow> Mirror \<Rightarrow> Mirror attempt) \<Rightarrow> real \<Rightarrow> Mirror \<Rightarrow> Mirror" where
  "completeObservationWith calc now s =
     (case calc now (stopObservation s) of
        Returned s' \<Rightarrow> s'
      | Threw s' \<Rightarrow> s'\<lparr> personality := Some Observer, scores := Some fallbackScores \<rparr>)"

definition completeObservation :: "real \<Rightarrow> Mirror \<Rightarrow> Mirror" where
  "completeObservation = completeObservationWith calculateResults"

text \<open>\<^verbatim>\<open>const elapsed = performance.now() - this.state.startTime;\<close>\<close>

definition elapsed :: "real \<Rightarrow> Mirror \<Rightarrow> real" where
  "elapsed now s = now - to_num (startTime s)"

text \<open>\<^verbatim>\<open>const remaining = Math.max(0, Math.ceil((this.state.duration - elapsed) / 1000));\<close>\<close>

definition remaining :: "real \<Rightarrow> Mirror \<Rightarrow> int" where
  "remaining now s = max 0 \<lceil>(duration s - elapsed now s) / 1000\<rceil>"

text \<open>The closure \<open>update\<close> of \<open>startTimer\<close>: one tick of the countdown.\<close>

definition update :: "real \<Rightarrow> Mirror \<Rightarrow> Mirror" where
  "update now s =
     (if \<not> isObserving s \<or> hidden s \<or> isDestroyed s then s
      else
        let s1 = (if remaining now s \<noteq> timeRemaining s
                  then s\<lparr> timeRemaining := remaining now s \<rparr> else s)
        in if elapsed now s \<ge> duration s then completeObservation now s1 else s1)"

text \<open>
  \<open>startTimer()\<close>: clear the old interval, run \<open>update\<close> once at once, start the interval.
\<close>

definition startTimer :: "real \<Rightarrow> Mirror \<Rightarrow> Mirror" where
  "startTimer now s = (update now (s\<lparr> countdownTimer := False \<rparr>))\<lparr> countdownTimer := True \<rparr>"

definition startIdleTracker :: "Mirror \<Rightarrow> Mirror" where
  "startIdleTracker s = s\<lparr> idleTimer := True \<rparr>"

definition resetMetrics :: "real \<Rightarrow> Mirror \<Rightarrow> Mirror" where
  "resetMetrics now s =
     s\<lparr> metrics := freshMetrics now, lastMouse := freshMouse,
        idleStart := None, isComposing := False \<rparr>"

definition beginObservation :: "real \<Rightarrow> Mirror \<Rightarrow> Mirror" where
  "beginObservation now s =
     (if isObserving s then s
      else
        let s1 = s\<lparr> isObserving := True, startTime := Some now, timeRemaining := 30,
                    pausedTime := 0,
                    metrics := (metrics s)\<lparr> lastActivityTime := now, firstActivityTime := None \<rparr> \<rparr>
        in startIdleTracker (startTimer now (resetMetrics now s1)))"


text \<open>\<open>reset()\<close>, bound to the abort and restart buttons and to Escape.\<close>

definition reset :: "Mirror \<Rightarrow> Mirror" where
  "reset s = (stopObservation s)\<lparr> personality := None, themeApplied := False, scores := None \<rparr>"

section \<open>The session clock in binary64\<close>

text \<open>
  The numbers of the program are IEEE binary64 values, and every subtraction, addition and
  division rounds its exact result to the nearest of them, ties to the even significand.
  \<open>binary64 x\<close> is that rounding: 53 significant bits, so a spacing of \<open>2 ^ (e - 52)\<close> for
  \<open>2 ^ e \<le> |x| < 2 ^ (e + 1)\<close>, and of \<open>2 ^ -1074\<close> below \<open>2 ^ -1022\<close>. Overflow to an
  infinity, beyond \<open>2 ^ 1024\<close>, is not modelled.
\<close>

definition round_even :: "real \<Rightarrow> int" where
  "round_even x =
     (let f = \<lfloor>x\<rfloor>; r = x - of_int f in
      if r < 1 / 2 then f else if r > 1 / 2 then f + 1 else if even f then f else f + 1)"

definition binary64 :: "real \<Rightarrow> real" where
  "binary64 x =
     (if x = 0 then 0
      else
        let e = max (\<lfloor>log 2 \<bar>x\<bar>\<rfloor> - 52) (- 1074)
        in of_int (round_even (x / 2 powi e)) * 2 powi e)"

text \<open>
  The clock of the session with each operation rounded: \<open>elapsed\<close>, \<open>remaining\<close>, \<open>update\<close>,
  \<open>startTimer\<close> and \<open>handleVisibilityChange\<close> again, statement by statement, for the
  properties that depend on the rounding.
\<close>

definition elapsed64 :: "real \<Rightarrow> Mirror \<Rightarrow> real" where
  "elapsed64 now s = binary64 (now - to_num (startTime s))"

definition remaining64 :: "real \<Rightarrow> Mirror \<Rightarrow> int" where
  "remaining64 now s = max 0 \<lceil>binary64 (binary64 (duration s - elapsed64 now s) / 1000)\<rceil>"

definition update64 :: "real \<Rightarrow> Mirror \<Rightarrow> Mirror" where
  "update64 now s =
     (if \<not> isObserving s \<or> hidden s \<or> isDestroyed s then s
      else
        let s1 = (if remaining64 now s \<noteq> timeRemaining s
                  then s\<lparr> timeRemaining := remaining64 now s \<rparr> else s)
        in if elapsed64 now s \<ge> duration s then completeObservation now s1 else s1)"

definition startTimer64 :: "real \<Rightarrow> Mirror \<Rightarrow> Mirror" where
  "startTimer64 now s =
     (update64 now (s\<lparr> countdownTimer := False \<rparr>))\<lparr> countdownTimer := True \<rparr>"

definition handleVisibilityChange64 :: "bool \<Rightarrow> real \<Rightarrow> Mirror \<Rightarrow> Mirror" where
  "handleVisibilityChange64 docHidden now s =
     (if \<not> isObserving s then s
      else if docHidden then
        s\<lparr> hidden := True, hiddenTime := now, countdownTimer := False, idleTimer := False \<rparr>
      else
        let s1 = s\<lparr> hidden := True \<rparr>;
            hiddenDuration = binary64 (now - hiddenTime s1);
            s2 = s1\<lparr> startTime := Some (binary64 (to_num (startTime s1) + hiddenDuration)),
                      hidden := False \<rparr>
        in if isObserving s2 then startIdleTracker (startTimer64 now s2) else s2)"

section \<open>Idle detector\<close>

definition checkIdle :: "real \<Rightarrow> Mirror \<Rightarrow> Mirror" where
  "checkIdle now s =
     (if \<not> isObserving s \<or> hidden s \<or> isDestroyed s then s
      else
        let timeSinceActivity = now - lastActivityTime (metrics s) in
        if truthy (idleStart s) \<and> timeSinceActivity < 100 then
          let idleDuration = now - to_num (idleStart s);
              s1 = (if idleDuration > 500
                    then s\<lparr> metrics := (metrics s)\<lparr> idleTime := idleTime (metrics s) + idleDuration \<rparr> \<rparr>
                    else s)
          in s1\<lparr> idleStart := None \<rparr>
        else if \<not> truthy (idleStart s) \<and> timeSinceActivity > 400 then
          s\<lparr> idleStart := Some now \<rparr>
        else s)"

section \<open>Recorders\<close>

text \<open>
  The listeners for \<open>mousemove\<close>, \<open>scroll\<close> and \<open>wheel\<close> are these recorders behind
  \<open>throttle\<close>, which lets a call through or drops it; the definitions are of the call that
  goes through.
\<close>

record MouseEvent =
  clientX :: real
  clientY :: real
  timeStamp :: real

text \<open>
  \<open>handleMouseMove(e)\<close>; \<open>clock\<close> is \<open>performance.now()\<close>, read when the event carries no
  time stamp.
\<close>

definition handleMouseMove :: "MouseEvent \<Rightarrow> real \<Rightarrow> Mirror \<Rightarrow> Mirror" where
  "handleMouseMove e clock s =
     (if \<not> isObserving s \<or> hidden s \<or> isDestroyed s then s
      else
        let now = to_num (js_or (Some (timeStamp e)) (Some clock));
            x = clientX e;
            y = clientY e;
            m1 = (if \<not> truthy (firstActivityTime (metrics s))
                  then (metrics s)\<lparr> firstActivityTime := Some now \<rparr> else metrics s);
            lm = lastMouse s;
            dt = now - lm_time lm;
            dx = x - lm_x lm;
            dy = y - lm_y lm;
            distance = sqrt (dx * dx + dy * dy);
            vx = dx / dt;
            vy = dy / dt;
            velocity = sqrt (vx * vx + vy * vy);
            moved = (lm_time lm \<noteq> 0 \<and> dt > 16 \<and> distance > 0);
            m2 = (if moved
                  then m1\<lparr> mouseDistance := mouseDistance m1 + distance,
                           velocitySum := velocitySum m1 + velocity,
                           velocityCount := Suc (velocityCount m1) \<rparr>
                  else m1);
            m3 = (if moved \<and> js_isFinite (Num velocity) \<and> velocity > maxVelocity m2
                  then m2\<lparr> maxVelocity := velocity \<rparr> else m2);
            m4 = (if moved \<and> distance < 5 \<and> dt < 50
                  then m3\<lparr> jitterCount := Suc (jitterCount m3) \<rparr> else m3);
            m5 = (if moved \<and> (lm_vx lm \<noteq> 0 \<or> lm_vy lm \<noteq> 0)
                      \<and> vx * lm_vx lm + vy * lm_vy lm < 0 \<and> velocity > 3 / 10
                  then m4\<lparr> directionChanges := Suc (directionChanges m4) \<rparr> else m4);
            lm1 = (if moved then lm\<lparr> lm_vx := vx, lm_vy := vy \<rparr> else lm)
        in s\<lparr> metrics := m5\<lparr> lastActivityTime := now \<rparr>,
              lastMouse := \<lparr> lm_x = x, lm_y = y, lm_time = now,
                              lm_vx = lm_vx lm1, lm_vy = lm_vy lm1 \<rparr> \<rparr>)"



text \<open>
  \<open>handleClick(e)\<close>; \<open>onSoundToggle\<close> is \<open>e.target?.closest('#sound-toggle')\<close> being found.
\<close>

definition handleClick :: "bool \<Rightarrow> real \<Rightarrow> Mirror \<Rightarrow> Mirror" where
  "handleClick onSoundToggle now s =
     (if \<not> isObserving s \<or> hidden s \<or> isDestroyed s then s
      else if onSoundToggle then s
      else s\<lparr> metrics := (metrics s)\<lparr> clickCount := Suc (clickCount (metrics s)),
                                      lastActivityTime := now \<rparr> \<rparr>)"

record KeyEvent =
  key :: string
  ctrlKey :: bool
  metaKey :: bool
  altKey :: bool
  eventIsComposing :: bool

text \<open>
  The class body of \<open>main.js\<close> declares the method \<open>handleKeyDown\<close> twice. The first
  declaration (line 690) is the keystroke recorder:
  \<^verbatim>\<open>handleKeyDown(e) {
    if (!this.state.isObserving || this.isDestroyed) return;
    if (this.isComposing || e.key === 'Dead' || e.isComposing) return;
    const now = performance.now();
    if (e.key === 'Backspace') { this.state.metrics.backspaces++; ... }
    else if (e.key.length === 1 && !e.ctrlKey && !e.metaKey && !e.altKey) {
      this.state.metrics.keystrokes++; }
    this.state.metrics.lastActivityTime = now; }\<close>
  It is modelled under the name \<open>handleKeyDown_recorder\<close>.
\<close>

definition handleKeyDown_recorder :: "KeyEvent \<Rightarrow> real \<Rightarrow> Mirror \<Rightarrow> Mirror" where
  "handleKeyDown_recorder e now s =
     (if \<not> isObserving s \<or> isDestroyed s then s
      else if isComposing s \<or> key e = ''Dead'' \<or> eventIsComposing e then s
      else
        let m = metrics s;
            m1 = (if key e = ''Backspace'' then m\<lparr> backspaces := Suc (backspaces m) \<rparr>
                  else if length (key e) = 1 \<and> \<not> ctrlKey e \<and> \<not> metaKey e \<and> \<not> altKey e
                  then m\<lparr> keystrokes := Suc (keystrokes m) \<rparr>
                  else m)
        in s\<lparr> metrics := m1\<lparr> lastActivityTime := now \<rparr> \<rparr>)"

text \<open>
  The second declaration (line 1280) is the keyboard shortcut handler:
  \<^verbatim>\<open>handleKeyDown(e) {
    if (e.key === 'Escape' && this.state.isObserving) { this.reset(); }
    if (e.key === ' ' && e.target === document.body) { e.preventDefault(); } }\<close>
  In a class body a later method definition of the same name replaces the earlier one on
  the prototype, so this is the function that \<open>this.handleKeyDown\<close> denotes.
\<close>

definition handleKeyDown :: "KeyEvent \<Rightarrow> Mirror \<Rightarrow> Mirror" where
  "handleKeyDown e s = (if key e = ''Escape'' \<and> isObserving s then reset s else s)"

text \<open>
  A \<open>keydown\<close> event as \<open>bindEvents\<close> wires it: the listener on the typing field,
  \<open>(e) => this.handleKeyDown(e)\<close>, when the event is on that field, then the listener on
  the document, \<open>this.boundKeyDownHandler = this.handleKeyDown.bind(this)\<close>.
\<close>

definition dispatchKeydown :: "bool \<Rightarrow> KeyEvent \<Rightarrow> Mirror \<Rightarrow> Mirror" where
  "dispatchKeydown onTypingField e s =
     handleKeyDown e (if onTypingField then handleKeyDown e s else s)"

section \<open>Idle polling scenario\<close>

text \<open>
  The idle poll number \<open>k\<close> of a run whose last activity was at \<open>t0\<close>, whose polls are at
  \<open>t0 + phase + 100 k\<close>, and in which activity resumes with one click at \<open>t0 + gap\<close>:
  the click is delivered before the first poll that is not earlier than it.
\<close>

definition pollStep :: "real \<Rightarrow> real \<Rightarrow> real \<Rightarrow> Mirror \<Rightarrow> nat \<Rightarrow> Mirror" where
  "pollStep t0 phase gap s k =
     (let p = t0 + phase + 100 * real k;
          s1 = (if p - 100 < t0 + gap \<and> t0 + gap \<le> p then handleClick False (t0 + gap) s else s)
      in checkIdle p s1)"

definition gapRun :: "real \<Rightarrow> real \<Rightarrow> real \<Rightarrow> nat \<Rightarrow> Mirror \<Rightarrow> Mirror" where
  "gapRun t0 phase gap n s = foldl (pollStep t0 phase gap) s [0..<n]"

section \<open>Sessions used as examples\<close>

text \<open>The score of \<open>entries[0]\<close>, the one \<open>calculateResults\<close> tests against 0.\<close>

definition topScore :: "real \<Rightarrow> Mirror \<Rightarrow> int" where
  "topScore now s = (case entries now s of [] \<Rightarrow> 0 | e0 # _ \<Rightarrow> snd e0)"

text \<open>Metrics that are all 0 except \<open>mouseDistance = 2500\<close>, in a session begun at 1000.\<close>

definition inertMetrics :: Metrics where
  "inertMetrics = (freshMetrics 0)\<lparr> mouseDistance := 2500 \<rparr>"

definition inertSession :: Mirror where
  "inertSession = (beginObservation 1000 initialMirror)\<lparr> metrics := inertMetrics \<rparr>"

text \<open>
  Metrics on which no rule of the table fires: one pointer sample of speed 1 over a long
  path, five keystrokes, activity from 2000 to 29000.
\<close>

definition driftMetrics :: Metrics where
  "driftMetrics =
     (freshMetrics 29000)\<lparr> mouseDistance := 2500, velocitySum := 1, velocityCount := 1,
                            keystrokes := 5, firstActivityTime := Some 2000 \<rparr>"

definition driftSession :: Mirror where
  "driftSession = (beginObservation 1000 initialMirror)\<lparr> metrics := driftMetrics \<rparr>"

text \<open>The scores a call of \<open>calculateResults\<close> leaves in \<open>this.state.scores\<close>.\<close>

definition resultScores :: "real \<Rightarrow> Mirror \<Rightarrow> Scores option" where
  "resultScores now s =
     (case calculateResults now s of Returned s' \<Rightarrow> scores s' | Threw s' \<Rightarrow> None)"

text \<open>A classifier that throws after it has written a personality.\<close>

definition failingClassifier :: "real \<Rightarrow> Mirror \<Rightarrow> Mirror attempt" where
  "failingClassifier now s = Threw (s\<lparr> personality := Some Restless \<rparr>)"

text \<open>
  The duration in the words of the specification: 30 when neither activity timestamp is set,
  otherwise \<open>clamp((lastActivityTime - firstActivityTime) / 1000, 1, 30)\<close>.
\<close>

definition claimedDurationSec :: "Metrics \<Rightarrow> real" where
  "claimedDurationSec m =
     (if \<not> truthy (firstActivityTime m) \<and> lastActivityTime m = 0 then 30
      else max 1 (min 30 ((lastActivityTime m - to_num (firstActivityTime m)) / 1000)))"

text \<open>A session begun at 1000 whose only event is one pointer sample at 5000.\<close>

definition singleSampleSession :: Mirror where
  "singleSampleSession =
     handleMouseMove \<lparr> clientX = 10, clientY = 10, timeStamp = 5000 \<rparr> 5000
       (beginObservation 1000 initialMirror)"

text \<open>A session begun at 1000 whose only event is one click at 6000.\<close>

definition clickOnlySession :: Mirror where
  "clickOnlySession = handleClick False 6000 (beginObservation 1000 initialMirror)"

text \<open>A session begun at 1000, and the same session paused at 5000.\<close>

definition observingSession :: Mirror where
  "observingSession = beginObservation 1000 initialMirror"


text \<open>
  Three clock values, the binary64 numbers nearest to 11924.6, 21924.6 and 28283.3, and the
  session begun at the first of them.
\<close>

definition clockBegin :: real where
  "clockBegin = 6555618178288845 / 2 ^ 39"

definition clockPause :: real where
  "clockPause = 6026588158584422 / 2 ^ 38"

definition clockResume :: real where
  "clockResume = 7774454305469235 / 2 ^ 38"

definition roundingSession :: Mirror where
  "roundingSession = beginObservation clockBegin initialMirror"

text \<open>Two key events: Backspace, and the letter a, without modifiers and outside composition.\<close>

definition backspaceEvent :: KeyEvent where
  "backspaceEvent = \<lparr> key = ''Backspace'', ctrlKey = False, metaKey = False, altKey = False,
                       eventIsComposing = False \<rparr>"

definition letterEvent :: KeyEvent where
  "letterEvent = \<lparr> key = ''a'', ctrlKey = False, metaKey = False, altKey = False,
                    eventIsComposing = False \<rparr>"

section \<open>The idle detector's view of the state\<close>

text \<open>
  \<open>checkIdle\<close> reads and writes three things: \<open>idleStart\<close>, \<open>lastActivityTime\<close> and
  \<open>idleTime\<close>. \<open>viewStep\<close> is \<open>pollStep\<close> on that triple, for a session that is observing,
  visible and not destroyed.
\<close>

definition idleView :: "Mirror \<Rightarrow> real option \<times> real \<times> real" where
  "idleView s = (idleStart s, lastActivityTime (metrics s), idleTime (metrics s))"

definition active :: "Mirror \<Rightarrow> bool" where
  "active s = (isObserving s \<and> \<not> hidden s \<and> \<not> isDestroyed s)"

definition viewStep ::
  "real \<Rightarrow> real \<Rightarrow> real \<Rightarrow> real option \<times> real \<times> real \<Rightarrow> nat
     \<Rightarrow> real option \<times> real \<times> real" where
  "viewStep t0 ph g v k =
    (case v of (i, l, a) \<Rightarrow>
     let p = t0 + ph + 100 * real k;
         l1 = (if p - 100 < t0 + g \<and> t0 + g \<le> p then t0 + g else l) in
     if truthy i \<and> p - l1 < 100
     then (None, l1, if p - to_num i > 500 then a + (p - to_num i) else a)
     else if \<not> truthy i \<and> p - l1 > 400 then (Some p, l1, a)
     else (i, l1, a))"

section \<open>Properties of normalisation\<close>








section \<open>Properties of the classifier\<close>

lemmas rate_defs = avgVelocity_def clickRate_def scrollRate_def activityDensity_def
  deletionRate_def avgIdleGap_def

lemma stopObservation_fields [simp]:
  "metrics (stopObservation s) = metrics s"
  "startTime (stopObservation s) = startTime s"
  "isObserving (stopObservation s) = False"
  "hidden (stopObservation s) = hidden s"
  "duration (stopObservation s) = duration s"
  by (simp_all add: stopObservation_def)

lemma durationSec_stop [simp]: "durationSec now (stopObservation s) = durationSec now s"
  by (simp add: durationSec_def actualDuration_def)

lemma archetypeScores_stop [simp]:
  "archetypeScores now (stopObservation s) = archetypeScores now s"
  by (simp add: archetypeScores_def rate_defs)

lemma entries_stop [simp]: "entries now (stopObservation s) = entries now s"
  by (simp add: entries_def)

lemma entries_length: "length (entries now s) = 5"
  by (simp add: entries_def archetypeScores_def Let_def)

lemma entries_cons: "\<exists>e0 rest. entries now s = e0 # rest"
  using entries_length [of now s] by (cases "entries now s") simp_all

text \<open>The classifier never takes its throwing branch.\<close>

lemma calculateResults_returns:
  "\<exists>e0 rest. entries now s = e0 # rest \<and>
     calculateResults now s =
       Returned (s\<lparr> personality := Some (dominantOf (metrics s) e0 rest),
                    scores := Some (subScores now s) \<rparr>)"
  using entries_cons [of now s] by (auto simp: calculateResults_def)

lemma completeObservation_eq:
  "\<exists>e0 rest. entries now s = e0 # rest \<and>
     completeObservation now s =
       (stopObservation s)\<lparr> personality := Some (dominantOf (metrics s) e0 rest),
                             scores := Some (subScores now (stopObservation s)) \<rparr>"
  using calculateResults_returns [of now "stopObservation s"]
  by (auto simp: completeObservation_def completeObservationWith_def)

lemma inert_scores:
  "archetypeScores now (s\<lparr> metrics := inertMetrics \<rparr>) =
     [(Impulsive, 0), (Analytical, 0), (Perfectionist, 10), (Observer, 20), (Restless, 0)]"
  by (simp add: archetypeScores_def inertMetrics_def freshMetrics_def rate_defs)

lemma inert_entries:
  "entries now (s\<lparr> metrics := inertMetrics \<rparr>) =
     [(Observer, 20), (Perfectionist, 10), (Impulsive, 0), (Analytical, 0), (Restless, 0)]"
  by (simp add: entries_def inert_scores)

lemma inert_personality:
  "personality (completeObservation now (s\<lparr> metrics := inertMetrics \<rparr>)) = Some Observer"
  using completeObservation_eq [of now "s\<lparr> metrics := inertMetrics \<rparr>"]
  by (auto simp: inert_entries dominantOf_def)

lemma zero_score_personality:
  assumes "topScore now s = 0"
  shows "personality (completeObservation now s) = Some (zeroScoreFallback (metrics s))"
  using completeObservation_eq [of now s] assms
  by (auto simp: topScore_def dominantOf_def)

lemma drift_entries:
  "entries 31000 driftSession =
     [(Impulsive, 0), (Analytical, 0), (Perfectionist, 0), (Observer, 0), (Restless, 0)]"
  by (simp add: entries_def archetypeScores_def driftSession_def driftMetrics_def
      freshMetrics_def rate_defs durationSec_def actualDuration_def js_or_def)

text \<open>
  Claim C1, as stated: with all metrics 0 except \<open>mouseDistance = 2500\<close>, the classifier
  reaches the zero-score branch and returns Restless. On the code two rules fire on such
  metrics: \<open>keystrokes < 5 && scrollCount < 5\<close> gives Observer 20 points, and
  \<open>avgVelocity < 0.8 && jitterCount < 20\<close> gives Perfectionist 10. The top score is 20, the
  zero-score branch is not taken, and the session completed at 31000 is classified Observer.
\<close>

theorem inert_session_counterexample:
  "topScore 31000 inertSession = 20
   \<and> personality (completeObservation 31000 inertSession) = Some Observer
   \<and> personality (completeObservation 31000 inertSession) \<noteq> Some Restless"
  by (simp add: inertSession_def topScore_def inert_entries inert_personality)

text \<open>
  Claim C1, amended: with all metrics 0 except \<open>mouseDistance = 2500\<close> the top score is 20
  (Observer), so the zero-score branch is not reached and the dominant personality is
  Observer, whatever the clock and the rest of the session; and whenever the top score is 0
  and \<open>mouseDistance > 2000\<close>, the dominant personality is Restless.
\<close>

theorem inert_session_is_observer:
  "topScore now (s\<lparr> metrics := inertMetrics \<rparr>) = 20
   \<and> personality (completeObservation now (s\<lparr> metrics := inertMetrics \<rparr>)) = Some Observer
   \<and> (topScore now' s' = 0 \<and> mouseDistance (metrics s') > 2000
        \<longrightarrow> personality (completeObservation now' s') = Some Restless)"
  by (simp add: topScore_def inert_entries inert_personality
      zero_score_personality [unfolded topScore_def] zeroScoreFallback_def)

theorem inert_session_is_observer_witness:
  "topScore 31000 driftSession = 0 \<and> mouseDistance (metrics driftSession) > 2000
   \<and> personality (completeObservation 31000 driftSession) = Some Restless"
  using inert_session_is_observer [of 0 initialMirror 31000 driftSession]
  by (simp add: topScore_def drift_entries) (simp add: driftSession_def driftMetrics_def)

lemma resultScores_eq: "resultScores now s = Some (subScores now s)"
  using calculateResults_returns [of now s] by (auto simp: resultScores_def)

lemma int_in_range_clamp100: "int_in_range 0 100 (Num (max 0 (min 100 (of_int k))))"
proof -
  have "max (0::real) (min 100 (of_int k)) = of_int (max 0 (min 100 k))"
    by (simp add: max_def min_def)
  then show ?thesis
    by (simp add: max_def min_def)
qed

lemma controlBias_eq:
  "controlBias (subScores now s) = Num (max 0 (min 100 (of_int \<lfloor>controlScore now s + 1 / 2\<rfloor>)))"
  by (simp add: subScores_def Let_def)

lemma controlScore_idle:
  assumes "clickCount (metrics s) = 0" "scrollCount (metrics s) = 0"
  shows "controlScore now s = 50"
  using assms by (simp add: controlScore_def clickRate_def scrollRate_def)

text \<open>
  Claim C8: for every metrics input the \<open>controlBias\<close> that \<open>calculateResults\<close> stores is an
  integer in [0,100], and it is exactly 50 when \<open>clickCount = 0\<close> and \<open>scrollCount = 0\<close>.
\<close>

theorem controlBias_range:
  "\<exists>sc. resultScores now s = Some sc
     \<and> int_in_range 0 100 (controlBias sc)
     \<and> (clickCount (metrics s) = 0 \<and> scrollCount (metrics s) = 0 \<longrightarrow> controlBias sc = Num 50)"
proof (intro exI conjI impI)
  show "resultScores now s = Some (subScores now s)" by (rule resultScores_eq)
  show "int_in_range 0 100 (controlBias (subScores now s))"
    unfolding controlBias_eq by (rule int_in_range_clamp100)
  assume "clickCount (metrics s) = 0 \<and> scrollCount (metrics s) = 0"
  then show "controlBias (subScores now s) = Num 50"
    by (simp add: controlBias_eq controlScore_idle)
qed

theorem controlBias_range_witness:
  "clickCount (metrics inertSession) = 0 \<and> scrollCount (metrics inertSession) = 0
   \<and> (\<exists>sc. resultScores 31000 inertSession = Some sc \<and> controlBias sc = Num 50)"
  using controlBias_range [of 31000 inertSession]
  by (auto simp: inertSession_def inertMetrics_def freshMetrics_def)

section \<open>Properties of completion\<close>

text \<open>
  Claim C7: if the classifier called by \<open>completeObservation\<close> throws, the session is still
  stopped (no longer observing) and the result is the fixed fallback: personality Observer
  and the four sub-scores 50. The classifier is any function that leaves \<open>isObserving\<close>
  as it found it, as \<open>calculateResults\<close> does; whatever it wrote before it threw is
  overwritten by the \<open>catch\<close> block.
\<close>

theorem classification_failure_fallback:
  assumes "calc now (stopObservation s) = Threw s'"
      and "isObserving s' = isObserving (stopObservation s)"
  shows "\<not> isObserving (completeObservationWith calc now s)
     \<and> personality (completeObservationWith calc now s) = Some Observer
     \<and> scores (completeObservationWith calc now s)
         = Some \<lparr> focus = Num 50, hesitation = Num 50, controlBias = Num 50, energy = Num 50 \<rparr>"
  using assms by (simp add: completeObservationWith_def fallbackScores_def)

theorem classification_failure_fallback_witness:
  "failingClassifier 31000 (stopObservation inertSession)
      = Threw ((stopObservation inertSession)\<lparr> personality := Some Restless \<rparr>)
   \<and> \<not> isObserving (completeObservationWith failingClassifier 31000 inertSession)
   \<and> personality (completeObservationWith failingClassifier 31000 inertSession) = Some Observer
   \<and> scores (completeObservationWith failingClassifier 31000 inertSession) = Some fallbackScores"
  using classification_failure_fallback [of failingClassifier 31000 inertSession
      "(stopObservation inertSession)\<lparr> personality := Some Restless \<rparr>"]
  by (simp add: failingClassifier_def fallbackScores_def)

section \<open>Properties of the duration\<close>

lemma beginObservation_initial:
  "beginObservation 1000 initialMirror =
     initialMirror\<lparr> isObserving := True, startTime := Some 1000, metrics := freshMetrics 1000,
                     countdownTimer := True, idleTimer := True \<rparr>"
  by (simp add: beginObservation_def initialMirror_def resetMetrics_def startTimer_def
      startIdleTracker_def update_def remaining_def elapsed_def Let_def)

lemma singleSample_metrics:
  "metrics singleSampleSession =
     (freshMetrics 1000)\<lparr> lastActivityTime := 5000, firstActivityTime := Some 5000 \<rparr>"
  unfolding singleSampleSession_def beginObservation_initial
  by (simp add: handleMouseMove_def initialMirror_def freshMouse_def freshMetrics_def js_or_def Let_def)

lemma clickOnly_metrics:
  "metrics clickOnlySession = (freshMetrics 1000)\<lparr> clickCount := 1, lastActivityTime := 6000 \<rparr>"
  unfolding clickOnlySession_def beginObservation_initial
  by (simp add: handleClick_def initialMirror_def freshMetrics_def)

lemma clickOnly_startTime: "startTime clickOnlySession = Some 1000"
  unfolding clickOnlySession_def beginObservation_initial
  by (simp add: handleClick_def initialMirror_def)

text \<open>
  Claim C4, as stated: the duration is 30 when no activity timestamp is set and
  \<open>clamp((lastActivityTime - firstActivityTime) / 1000, 1, 30)\<close> otherwise. After a single
  pointer sample both timestamps are set and equal, the difference is 0, and
  \<open>actualDuration || 30\<close> replaces it by 30, where the clamp of the claim gives 1.
\<close>

theorem durationSec_counterexample:
  "durationSec 31000 singleSampleSession = 30
   \<and> claimedDurationSec (metrics singleSampleSession) = 1"
  by (simp add: durationSec_def actualDuration_def claimedDurationSec_def singleSample_metrics
      js_or_def freshMetrics_def)

text \<open>
  Claim C4, amended: the duration is \<open>clamp(d, 1, 30)\<close> where \<open>d\<close> is \<open>(lastActivityTime,
  or the clock when it is unset) - (firstActivityTime, or startTime when it is unset)\<close> in
  seconds, and \<open>d = 0\<close> counts as 30. So: with both timestamps unset and at least 30 s on
  the clock since \<open>startTime\<close>, as at completion, it is 30; with both set and different it is
  \<open>clamp((lastActivityTime - firstActivityTime) / 1000, 1, 30)\<close>; with both set and equal it is
  30; with only \<open>firstActivityTime\<close> unset it is measured from \<open>startTime\<close>.
\<close>

theorem durationSec_cases:
  "(\<not> truthy (firstActivityTime (metrics s)) \<and> lastActivityTime (metrics s) = 0
      \<and> now - to_num (startTime s) \<ge> 30000 \<longrightarrow> durationSec now s = 30)
   \<and> (truthy (firstActivityTime (metrics s)) \<and> lastActivityTime (metrics s) \<noteq> 0
      \<and> lastActivityTime (metrics s) \<noteq> to_num (firstActivityTime (metrics s))
      \<longrightarrow> durationSec now s
          = max 1 (min 30 ((lastActivityTime (metrics s) - to_num (firstActivityTime (metrics s))) / 1000)))
   \<and> (truthy (firstActivityTime (metrics s))
      \<and> lastActivityTime (metrics s) = to_num (firstActivityTime (metrics s))
      \<longrightarrow> durationSec now s = 30)
   \<and> (\<not> truthy (firstActivityTime (metrics s)) \<and> lastActivityTime (metrics s) \<noteq> 0
      \<and> lastActivityTime (metrics s) \<noteq> to_num (startTime s)
      \<longrightarrow> durationSec now s
          = max 1 (min 30 ((lastActivityTime (metrics s) - to_num (startTime s)) / 1000)))"
  by (cases "firstActivityTime (metrics s)")
     (auto simp: durationSec_def actualDuration_def js_or_def)

theorem durationSec_cases_witness:
  "(\<not> truthy (firstActivityTime (metrics inertSession))
      \<and> lastActivityTime (metrics inertSession) = 0
      \<and> 31000 - to_num (startTime inertSession) \<ge> 30000
      \<and> durationSec 31000 inertSession = 30)
   \<and> (truthy (firstActivityTime (metrics driftSession))
      \<and> lastActivityTime (metrics driftSession) \<noteq> 0
      \<and> lastActivityTime (metrics driftSession) \<noteq> to_num (firstActivityTime (metrics driftSession))
      \<and> durationSec 31000 driftSession = 27)
   \<and> (truthy (firstActivityTime (metrics singleSampleSession))
      \<and> lastActivityTime (metrics singleSampleSession)
          = to_num (firstActivityTime (metrics singleSampleSession))
      \<and> durationSec 31000 singleSampleSession = 30)
   \<and> (\<not> truthy (firstActivityTime (metrics clickOnlySession))
      \<and> lastActivityTime (metrics clickOnlySession) \<noteq> 0
      \<and> lastActivityTime (metrics clickOnlySession) \<noteq> to_num (startTime clickOnlySession)
      \<and> durationSec 31000 clickOnlySession = 5)"
  using durationSec_cases [of inertSession 31000] durationSec_cases [of driftSession 31000]
    durationSec_cases [of singleSampleSession 31000] durationSec_cases [of clickOnlySession 31000]
  by (simp add: beginObservation_initial clickOnly_startTime clickOnly_metrics singleSample_metrics
      inertSession_def driftSession_def inertMetrics_def driftMetrics_def freshMetrics_def)

section \<open>Properties of the session clock\<close>

lemma update_startTime [simp]: "startTime (update now s) = startTime s"
  using completeObservation_eq [of now "if remaining now s \<noteq> timeRemaining s
                  then s\<lparr> timeRemaining := remaining now s \<rparr> else s"]
  by (auto simp: update_def Let_def)

lemma update_fields [simp]:
  "duration (update now s) = duration s"
  "hiddenTime (update now s) = hiddenTime s"
  "hidden (update now s) = hidden s"
  using completeObservation_eq [of now "if remaining now s \<noteq> timeRemaining s
                  then s\<lparr> timeRemaining := remaining now s \<rparr> else s"]
  by (auto simp: update_def Let_def stopObservation_def)

lemma startTimer_fields [simp]:
  "startTime (startTimer now s) = startTime s"
  "duration (startTimer now s) = duration s"
  "hiddenTime (startTimer now s) = hiddenTime s"
  "hidden (startTimer now s) = hidden s"
  by (simp_all add: startTimer_def)




lemma observingSession_fields:
  "isObserving observingSession" "\<not> isDestroyed observingSession"
  "startTime observingSession = Some 1000" "duration observingSession = 30000"
  "hiddenTime observingSession = 0" "\<not> hidden observingSession"
  unfolding observingSession_def beginObservation_initial
  by (simp_all add: initialMirror_def)






section \<open>Properties of the session clock in binary64\<close>

text \<open>Rounding inside a known binade.\<close>

lemma binary64_binade:
  assumes "2 powi e \<le> \<bar>x\<bar>" "\<bar>x\<bar> < 2 powi (e + 1)" "- 1022 \<le> e"
  shows "binary64 x = of_int (round_even (x / 2 powi (e - 52))) * 2 powi (e - 52)"
proof -
  have "0 < (2::real) powi e"
    by simp
  with assms(1) have pos: "0 < \<bar>x\<bar>"
    by linarith
  have a: "2 powr real_of_int e = (2::real) powi e"
    by (simp add: powr_real_of_int')
  have b: "2 powr (real_of_int e + 1) = (2::real) powi (e + 1)"
    using powr_real_of_int' [of 2 "e + 1"] by simp
  have "\<lfloor>log 2 \<bar>x\<bar>\<rfloor> = e"
    using assms(1,2) pos by (simp add: floor_log_eq_powr_iff a b)
  moreover have "x \<noteq> 0" using pos by auto
  moreover have "max (e - 52) (- 1074) = e - 52"
    using assms(3) by simp
  ultimately show ?thesis
    unfolding binary64_def Let_def by (simp only: if_False)
qed

lemma beginObservation_fresh:
  "beginObservation now initialMirror =
     initialMirror\<lparr> isObserving := True, startTime := Some now, metrics := freshMetrics now,
                     countdownTimer := True, idleTimer := True \<rparr>"
  by (simp add: beginObservation_def initialMirror_def resetMetrics_def startTimer_def
      startIdleTracker_def update_def remaining_def elapsed_def Let_def)

lemma roundingSession_fields:
  "isObserving roundingSession" "\<not> isDestroyed roundingSession"
  "startTime roundingSession = Some clockBegin" "duration roundingSession = 30000"
  unfolding roundingSession_def beginObservation_fresh
  by (simp_all add: initialMirror_def)

lemma update64_fields [simp]:
  "startTime (update64 now s) = startTime s"
  "duration (update64 now s) = duration s"
  using completeObservation_eq [of now "if remaining64 now s \<noteq> timeRemaining s
                  then s\<lparr> timeRemaining := remaining64 now s \<rparr> else s"]
  by (auto simp: update64_def Let_def stopObservation_def)

lemma pause64_eq:
  "isObserving s \<Longrightarrow> handleVisibilityChange64 True now s =
     s\<lparr> hidden := True, hiddenTime := now, countdownTimer := False, idleTimer := False \<rparr>"
  by (simp add: handleVisibilityChange64_def)

lemma resume64_startTime:
  "isObserving s \<Longrightarrow> startTime (handleVisibilityChange64 False now s)
      = Some (binary64 (to_num (startTime s) + binary64 (now - hiddenTime s)))"
  by (simp add: handleVisibilityChange64_def Let_def startIdleTracker_def startTimer64_def)

lemma resume64_duration:
  "duration (handleVisibilityChange64 False now s) = duration s"
  by (simp add: handleVisibilityChange64_def Let_def startIdleTracker_def startTimer64_def)

lemma pause_resume64_startTime:
  assumes "isObserving s"
  shows "startTime (handleVisibilityChange64 False t' (handleVisibilityChange64 True t s))
           = Some (binary64 (to_num (startTime s) + binary64 (t' - t)))"
  using assms by (simp add: pause64_eq resume64_startTime)

lemma pause_resume64_duration:
  assumes "isObserving s"
  shows "duration (handleVisibilityChange64 False t' (handleVisibilityChange64 True t s)) = duration s"
  using assms by (simp add: pause64_eq resume64_duration)

lemma binary64_2000: "binary64 2000 = 2000"
  by (subst binary64_binade [where e = 10]) (simp_all add: round_even_def power_int_minus)

lemma binary64_3000: "binary64 3000 = 3000"
  by (subst binary64_binade [where e = 11]) (simp_all add: round_even_def power_int_minus)

lemma binary64_4000: "binary64 4000 = 4000"
  by (subst binary64_binade [where e = 11]) (simp_all add: round_even_def power_int_minus)

lemma binary64_26000: "binary64 26000 = 26000"
  by (subst binary64_binade [where e = 14]) (simp_all add: round_even_def power_int_minus)

lemma binary64_26: "binary64 26 = 26"
  by (subst binary64_binade [where e = 4]) (simp_all add: round_even_def power_int_minus)

lemma observing_remaining64: "remaining64 5000 observingSession = 26"
  by (simp add: remaining64_def elapsed64_def observingSession_fields
      binary64_4000 binary64_26000 binary64_26)

lemma clocks_are_binary64:
  "binary64 clockBegin = clockBegin" "binary64 clockPause = clockPause"
  "binary64 clockResume = clockResume"
  unfolding clockBegin_def clockPause_def clockResume_def
  by (subst binary64_binade [where e = 13], simp_all add: round_even_def power_int_minus)
     (subst binary64_binade [where e = 14], simp_all add: round_even_def power_int_minus)+

lemma rounding_elapsed_before:
  "binary64 (clockPause - clockBegin) = 5497558138879999 / 2 ^ 39"
  unfolding clockBegin_def clockPause_def
  by (subst binary64_binade [where e = 13]) (simp_all add: round_even_def power_int_minus)

lemma rounding_left_before: "binary64 (30000 - 5497558138879999 / 2 ^ 39) = 20000"
  by (subst binary64_binade [where e = 14]) (simp_all add: round_even_def power_int_minus)

lemma binary64_20: "binary64 (20000 / 1000) = 20"
  by (subst binary64_binade [where e = 4]) (simp_all add: round_even_def power_int_minus)

lemma rounding_hiddenDuration:
  "binary64 (clockResume - clockPause) = 6991464587539252 / 2 ^ 40"
  unfolding clockResume_def clockPause_def
  by (subst binary64_binade [where e = 12]) (simp_all add: round_even_def power_int_minus)

lemma rounding_startTime:
  "binary64 (clockBegin + 6991464587539252 / 2 ^ 40) = 5025675236029236 / 2 ^ 38"
  unfolding clockBegin_def
  by (subst binary64_binade [where e = 14]) (simp_all add: round_even_def power_int_minus)

lemma rounding_elapsed_after:
  "binary64 (clockResume - 5025675236029236 / 2 ^ 38) = 5497558138879998 / 2 ^ 39"
  unfolding clockResume_def
  by (subst binary64_binade [where e = 13]) (simp_all add: round_even_def power_int_minus)

lemma rounding_left_after:
  "binary64 (30000 - 5497558138879998 / 2 ^ 39) = 5497558138880001 / 2 ^ 38"
  by (subst binary64_binade [where e = 14]) (simp_all add: round_even_def power_int_minus)

lemma rounding_quotient_after:
  "binary64 (5497558138880001 / 2 ^ 38 / 1000) = 5629499534213121 / 2 ^ 48"
  by (subst binary64_binade [where e = 4]) (simp_all add: round_even_def power_int_minus)

lemma rounding_remaining_before: "remaining64 clockPause roundingSession = 20"
  unfolding remaining64_def elapsed64_def roundingSession_fields to_num.simps
    rounding_elapsed_before rounding_left_before binary64_20
  by simp

lemma rounding_startTime_after:
  "startTime (handleVisibilityChange64 False clockResume
      (handleVisibilityChange64 True clockPause roundingSession)) = Some (5025675236029236 / 2 ^ 38)"
  unfolding pause_resume64_startTime [OF roundingSession_fields(1)] roundingSession_fields(3)
    to_num.simps rounding_hiddenDuration rounding_startTime
  by (rule refl)

lemma rounding_remaining_after:
  "remaining64 clockResume (handleVisibilityChange64 False clockResume
      (handleVisibilityChange64 True clockPause roundingSession)) = 21"
  unfolding remaining64_def elapsed64_def rounding_startTime_after
    pause_resume64_duration [OF roundingSession_fields(1)] roundingSession_fields(4)
    to_num.simps rounding_elapsed_after rounding_left_after rounding_quotient_after
  by simp

text \<open>
  Claim C10, as stated: a pause followed by a resume after the hidden duration \<open>h\<close> moves
  \<open>startTime\<close> forward by exactly \<open>h\<close>, and \<open>remaining\<close> at the resume equals \<open>remaining\<close>
  at the pause. In the arithmetic of the program the sum \<open>startTime + hiddenDuration\<close> is
  rounded: the session begun at 11924.6, paused at 21924.6 and resumed at 28283.3 has
  \<open>remaining\<close> 20 at the pause and 21 at the resume, and its new \<open>startTime\<close> is not the
  old one plus the hidden duration.
\<close>

theorem pause_resume_rounding_counterexample:
  "binary64 clockBegin = clockBegin \<and> binary64 clockPause = clockPause
   \<and> binary64 clockResume = clockResume
   \<and> remaining64 clockPause roundingSession = 20
   \<and> remaining64 clockResume (handleVisibilityChange64 False clockResume
        (handleVisibilityChange64 True clockPause roundingSession)) = 21
   \<and> startTime (handleVisibilityChange64 False clockResume
        (handleVisibilityChange64 True clockPause roundingSession)) = Some (5025675236029236 / 2 ^ 38)
   \<and> 5025675236029236 / 2 ^ 38 \<noteq> clockBegin + (clockResume - clockPause)"
  by (simp add: clocks_are_binary64 rounding_remaining_before rounding_remaining_after
      rounding_startTime_after)
     (simp add: clockBegin_def clockPause_def clockResume_def)

text \<open>
  Claim C10, amended: after a pause at \<open>t\<close> and a resume at \<open>t'\<close> of an observing session,
  \<open>startTime\<close> is the binary64 sum of the old \<open>startTime\<close> and the binary64 difference
  \<open>t' - t\<close>; when that sum is exactly \<open>startTime + (t' - t)\<close>, as it is when neither
  operation rounds, \<open>remaining\<close> at the resume equals \<open>remaining\<close> at the pause.
\<close>

theorem pause_resume_binary64:
  assumes "isObserving s"
  shows "startTime (handleVisibilityChange64 False t' (handleVisibilityChange64 True t s))
           = Some (binary64 (to_num (startTime s) + binary64 (t' - t)))
     \<and> (binary64 (to_num (startTime s) + binary64 (t' - t)) = to_num (startTime s) + (t' - t)
          \<longrightarrow> remaining64 t' (handleVisibilityChange64 False t' (handleVisibilityChange64 True t s))
                = remaining64 t s)"
  using assms
  by (simp add: pause_resume64_startTime pause_resume64_duration remaining64_def elapsed64_def)

theorem pause_resume_binary64_witness:
  "isObserving observingSession
   \<and> binary64 (to_num (startTime observingSession) + binary64 (7000 - 5000))
        = to_num (startTime observingSession) + (7000 - 5000)
   \<and> startTime (handleVisibilityChange64 False 7000 (handleVisibilityChange64 True 5000 observingSession))
        = Some 3000
   \<and> remaining64 7000 (handleVisibilityChange64 False 7000 (handleVisibilityChange64 True 5000 observingSession))
        = 26
   \<and> remaining64 5000 observingSession = 26"
  using pause_resume_binary64 [of observingSession 7000 5000]
  by (simp add: observingSession_fields binary64_2000 binary64_3000 observing_remaining64)

section \<open>Properties of the idle detector\<close>

lemma active_checkIdle [simp]: "active (checkIdle p s) = active s"
  by (simp add: active_def checkIdle_def Let_def)

lemma active_handleClick [simp]: "active (handleClick b t s) = active s"
  by (simp add: active_def handleClick_def)

lemma active_pollStep [simp]: "active (pollStep t0 ph g s k) = active s"
  by (simp add: pollStep_def Let_def)

lemma pollStep_view:
  assumes "active s"
  shows "idleView (pollStep t0 ph g s k) = viewStep t0 ph g (idleView s) k"
  using assms
  by (auto simp: pollStep_def Let_def idleView_def active_def checkIdle_def handleClick_def viewStep_def)

lemma gapRun_view:
  assumes "active s"
  shows "active (gapRun t0 ph g n s)
     \<and> idleView (gapRun t0 ph g n s) = foldl (viewStep t0 ph g) (idleView s) [0..<n]"
  using assms
  by (induction n) (simp_all add: gapRun_def pollStep_view)

lemma upt7: "[0..<7] = [0,1,2,3,4,5,6]"
  by (simp add: upt_rec)

lemma upt8: "[0..<8] = [0,1,2,3,4,5,6,7]"
  by (simp add: upt_rec)

lemma upt12: "[0..<12] = [0,1,2,3,4,5,6,7,8,9,10,11]"
  by (simp add: upt_rec)

lemma view450:
  assumes "0 \<le> t0" "0 < ph" "ph \<le> 100"
  shows "foldl (viewStep t0 ph 450) (None, t0, a) [0..<7] = (None, t0 + 450, a)"
proof (cases "ph < 50")
  case True
  with assms show ?thesis by (simp add: upt7 viewStep_def Let_def)
next
  case False
  with assms show ?thesis by (simp add: upt7 viewStep_def Let_def)
qed

lemma view600:
  assumes "0 \<le> t0" "0 < ph" "ph \<le> 100"
  shows "foldl (viewStep t0 ph 600) (None, t0, a) [0..<8] = (None, t0 + 600, a)"
proof (cases "ph < 100")
  case True
  with assms show ?thesis by (simp add: upt8 viewStep_def Let_def)
next
  case False
  with assms have "ph = 100" by simp
  then show ?thesis using assms by (simp add: upt8 viewStep_def Let_def)
qed

lemma view1000:
  assumes "0 \<le> t0" "0 < ph" "ph < 100"
  shows "foldl (viewStep t0 ph 1000) (None, t0, a) [0..<12] = (None, t0 + 1000, a + 600)"
  using assms by (simp add: upt12 viewStep_def Let_def)

lemma gapRun_idle:
  assumes "isObserving s" "\<not> hidden s" "\<not> isDestroyed s" "idleStart s = None"
    and "lastActivityTime (metrics s) = t0"
  shows "idleView (gapRun t0 ph g n s)
           = foldl (viewStep t0 ph g) (None, t0, idleTime (metrics s)) [0..<n]"
proof -
  from assms have "active s" by (simp add: active_def)
  then have "idleView (gapRun t0 ph g n s) = foldl (viewStep t0 ph g) (idleView s) [0..<n]"
    using gapRun_view by blast
  with assms show ?thesis by (simp add: idleView_def)
qed

lemma idleView_fields:
  "idleView s = (i, l, a) \<Longrightarrow> idleStart s = i \<and> lastActivityTime (metrics s) = l \<and> idleTime (metrics s) = a"
  by (simp add: idleView_def)

lemma observingSession_idle:
  "idleStart observingSession = None" "lastActivityTime (metrics observingSession) = 1000"
  "idleTime (metrics observingSession) = 0"
  unfolding observingSession_def beginObservation_initial
  by (simp_all add: initialMirror_def freshMetrics_def)

lemma view1000_on_poll:
  assumes "0 \<le> t0"
  shows "foldl (viewStep t0 100 1000) (None, t0, a) [0..<12] = (None, t0 + 1000, a)"
  using assms by (simp add: upt12 viewStep_def Let_def)

lemma upt5: "[0..<5] = [0,1,2,3,4]"
  by (simp add: upt_rec)

lemma idle_gap_600_trace:
  "idleStart (gapRun 1000 50 600 5 observingSession) = Some 1450
   \<and> idleTime (metrics (gapRun 1000 50 600 5 observingSession)) = 0"
proof -
  have "idleView (gapRun 1000 50 600 5 observingSession) = (Some 1450, 1000, 0)"
    using gapRun_idle [of observingSession 1000 50 600 5]
    by (simp add: observingSession_fields observingSession_idle upt5 viewStep_def Let_def)
  from idleView_fields [OF this] show ?thesis by simp
qed

text \<open>
  Claim C3, as stated: under the 100 ms poll cadence a gap of 450 ms adds 0 to \<open>idleTime\<close>
  and a gap of 600 ms adds about 600 ms once the idle period closes. For the gap of 600 ms
  this fails: with the last activity at 1000 and polls at 1050, 1150, ... the idle period
  opens at the poll of 1450, the click at 1600 closes it at the poll of 1650, it has lasted
  200 ms, which is not more than 500, and nothing is added.
\<close>

theorem idle_gap_600_counterexample:
  "idleStart (gapRun 1000 50 600 8 observingSession) = None
   \<and> lastActivityTime (metrics (gapRun 1000 50 600 8 observingSession)) = 1600
   \<and> idleTime (metrics (gapRun 1000 50 600 8 observingSession)) = 0
   \<and> \<not> \<bar>idleTime (metrics (gapRun 1000 50 600 8 observingSession)) - 600\<bar> \<le> 100"
proof -
  have "idleView (gapRun 1000 50 600 8 observingSession) = (None, 1000 + 600, 0)"
    using gapRun_idle [of observingSession 1000 50 600 8] view600 [of 1000 50 0]
    by (simp add: observingSession_fields observingSession_idle)
  from idleView_fields [OF this] show ?thesis by simp
qed

text \<open>
  Claim C3, amended: a session is observing, visible and not destroyed, with no idle period
  open and its last activity at \<open>t0 \<ge> 0\<close>; its polls come at \<open>t0 + ph\<close>,
  \<open>0 < ph \<le> 100\<close>, and then every 100 ms; the activity resumes with one click. Then a gap of 450 ms adds 0 to \<open>idleTime\<close>; a gap of
  600 ms adds 0 as well and leaves the idle period closed; a gap of 1000 ms adds 600 ms when
  \<open>ph < 100\<close> and adds 0 when \<open>ph = 100\<close>, where a poll falls on the instant of the click.
\<close>

theorem idle_gap_accounting:
  assumes "isObserving s" "\<not> hidden s" "\<not> isDestroyed s" "idleStart s = None"
    and "lastActivityTime (metrics s) = t0" "0 \<le> t0" "0 < ph" "ph \<le> 100"
  shows "idleTime (metrics (gapRun t0 ph 450 7 s)) = idleTime (metrics s)
     \<and> idleTime (metrics (gapRun t0 ph 600 8 s)) = idleTime (metrics s)
     \<and> idleStart (gapRun t0 ph 600 8 s) = None
     \<and> (ph < 100 \<longrightarrow> idleTime (metrics (gapRun t0 ph 1000 12 s)) = idleTime (metrics s) + 600)
     \<and> (ph = 100 \<longrightarrow> idleTime (metrics (gapRun t0 ph 1000 12 s)) = idleTime (metrics s))"
proof -
  have a: "idleView (gapRun t0 ph 450 7 s) = (None, t0 + 450, idleTime (metrics s))"
    using gapRun_idle [OF assms(1-5)] view450 [OF assms(6-8)] by simp
  have b: "idleView (gapRun t0 ph 600 8 s) = (None, t0 + 600, idleTime (metrics s))"
    using gapRun_idle [OF assms(1-5)] view600 [OF assms(6-8)] by simp
  have c: "idleView (gapRun t0 ph 1000 12 s) = (None, t0 + 1000, idleTime (metrics s) + 600)"
    if "ph < 100"
    using gapRun_idle [OF assms(1-5)] view1000 [OF assms(6,7) that] by simp
  have d: "idleView (gapRun t0 ph 1000 12 s) = (None, t0 + 1000, idleTime (metrics s))"
    if "ph = 100"
    using gapRun_idle [OF assms(1-5)] view1000_on_poll [OF assms(6)] that by simp
  show ?thesis
    using idleView_fields [OF a] idleView_fields [OF b] idleView_fields [OF c]
      idleView_fields [OF d] by simp
qed

theorem idle_gap_accounting_witness:
  "isObserving observingSession \<and> \<not> hidden observingSession \<and> \<not> isDestroyed observingSession
   \<and> idleStart observingSession = None \<and> lastActivityTime (metrics observingSession) = 1000
   \<and> idleTime (metrics (gapRun 1000 50 450 7 observingSession)) = 0
   \<and> idleTime (metrics (gapRun 1000 50 600 8 observingSession)) = 0
   \<and> idleStart (gapRun 1000 50 600 8 observingSession) = None
   \<and> idleTime (metrics (gapRun 1000 50 1000 12 observingSession)) = 600
   \<and> idleTime (metrics (gapRun 1000 100 1000 12 observingSession)) = 0"
  using idle_gap_accounting [of observingSession 1000 50]
    idle_gap_accounting [of observingSession 1000 100]
  by (simp add: observingSession_fields observingSession_idle)

section \<open>Properties of the recorders\<close>

lemma reset_metrics [simp]: "metrics (reset s) = metrics s"
  by (simp add: reset_def)

lemma handleKeyDown_metrics [simp]: "metrics (handleKeyDown e s) = metrics s"
  by (simp add: handleKeyDown_def)

lemma dispatchKeydown_metrics: "metrics (dispatchKeydown f e s) = metrics s"
  by (simp add: dispatchKeydown_def)


text \<open>
  The recorder declared first under the name \<open>handleKeyDown\<close> does what claim C2 says.
\<close>

lemma handleKeyDown_recorder_counts:
  assumes "isObserving s" "\<not> isDestroyed s" "\<not> isComposing s" "\<not> eventIsComposing e"
  shows "key e = ''Backspace'' \<Longrightarrow>
           backspaces (metrics (handleKeyDown_recorder e now s)) = backspaces (metrics s) + 1
           \<and> lastActivityTime (metrics (handleKeyDown_recorder e now s)) = now"
    and "length (key e) = 1 \<Longrightarrow> \<not> ctrlKey e \<Longrightarrow> \<not> metaKey e \<Longrightarrow> \<not> altKey e \<Longrightarrow>
           keystrokes (metrics (handleKeyDown_recorder e now s)) = keystrokes (metrics s) + 1
           \<and> lastActivityTime (metrics (handleKeyDown_recorder e now s)) = now"
  using assms by (auto simp: handleKeyDown_recorder_def Let_def)

lemma observingSession_keys:
  "\<not> isComposing observingSession" "backspaces (metrics observingSession) = 0"
  "keystrokes (metrics observingSession) = 0"
  unfolding observingSession_def beginObservation_initial
  by (simp_all add: initialMirror_def freshMetrics_def)

lemma recorder_on_observingSession:
  "backspaces (metrics (handleKeyDown_recorder backspaceEvent 2000 observingSession)) = 1
   \<and> keystrokes (metrics (handleKeyDown_recorder letterEvent 2000 observingSession)) = 1
   \<and> lastActivityTime (metrics (handleKeyDown_recorder backspaceEvent 2000 observingSession)) = 2000
   \<and> lastActivityTime (metrics (handleKeyDown_recorder letterEvent 2000 observingSession)) = 2000"
  using handleKeyDown_recorder_counts(1) [of observingSession backspaceEvent 2000]
    handleKeyDown_recorder_counts(2) [of observingSession letterEvent 2000]
  by (simp add: observingSession_fields observingSession_keys backspaceEvent_def letterEvent_def)




text \<open>
  Claim C2: a keydown of Backspace, or of a printable character without modifiers, in a
  session that is observing and not composing bumps \<open>backspaces\<close>, respectively
  \<open>keystrokes\<close>, and stamps \<open>lastActivityTime\<close>. The code does not: both keydown listeners
  run the method declared last under the name \<open>handleKeyDown\<close>, the shortcut handler, and
  the recorder is never called. In the session begun at 1000 a Backspace and a letter on
  the typing field leave both counters at 0 and \<open>lastActivityTime\<close> at 1000.
\<close>

theorem keydown_not_recorded:
  "isObserving observingSession \<and> \<not> hidden observingSession \<and> \<not> isComposing observingSession
   \<and> backspaces (metrics (dispatchKeydown True backspaceEvent observingSession)) = 0
   \<and> keystrokes (metrics (dispatchKeydown True letterEvent observingSession)) = 0
   \<and> lastActivityTime (metrics (dispatchKeydown True backspaceEvent observingSession)) = 1000
   \<and> lastActivityTime (metrics (dispatchKeydown True letterEvent observingSession)) = 1000"
  by (simp add: dispatchKeydown_metrics observingSession_fields observingSession_keys
      observingSession_idle)

end
